theory Spec2Isabelle
  imports Main "HOL-Library.AList"
begin

section \<open>The labeler's glob-rule evaluator (src/src/labeler.ts)\<close>

subsection \<open>Data model\<close>

text \<open>
  \<^verbatim>\<open>type MatchRule = { and?: string[]; or?: string[] };\<close>
  An optional field is an \<open>option\<close>: \<open>None\<close> is the source's \<open>undefined\<close>.
  The field names carry a prime because \<open>and\<close>, \<open>or\<close>, \<open>all\<close> and \<open>any\<close> are
  taken in Isabelle.
\<close>

record MatchRule =
  and' :: "string list option"
  or' :: "string list option"

text \<open>The union \<^verbatim>\<open>string[] | MatchRule\<close> of the fields \<open>all\<close> and \<open>any\<close>.\<close>

datatype StringsOrMatchRule = Strings "string list" | Rule MatchRule

text \<open>\<^verbatim>\<open>interface MatchConfig { all?: string[] | MatchRule; any?: string[] | MatchRule; }\<close>\<close>

record MatchConfig =
  all' :: "StringsOrMatchRule option"
  any' :: "StringsOrMatchRule option"

text \<open>\<^verbatim>\<open>type StringOrMatchConfig = string | MatchConfig;\<close>\<close>

datatype StringOrMatchConfig = Str string | Cfg MatchConfig

text \<open>
  The glob library (the package minimatch) is not part of the repository. The evaluator
  uses a compiled matcher only through \<^verbatim>\<open>matcher.match(changedFile)\<close> (the fields
  \<open>negate\<close> and \<open>pattern\<close> are read for debug output only), so a matcher is modelled
  as its \<open>match\<close> method, and the constructor \<^verbatim>\<open>new Minimatch(g)\<close> is a parameter
  \<open>Minimatch\<close> of every function that compiles patterns. The parameter gives a matcher
  for every pattern text: what the package does with a pattern it cannot parse is not
  decided by the source at hand, and the properties below hold for every choice of
  \<open>Minimatch\<close>.
\<close>

type_synonym IMinimatch = "string \<Rightarrow> bool"

subsection \<open>Normalizer and pattern compilation\<close>

definition toMatchConfig :: "StringOrMatchConfig \<Rightarrow> MatchConfig" where
  "toMatchConfig config =
     (case config of
        Str s \<Rightarrow> \<lparr>all' = None, any' = Some (Strings [s])\<rparr>
      | Cfg c \<Rightarrow> c)"

text \<open>
  \<open>toMatchers\<close> returns the object \<^verbatim>\<open>{ matcherAll, matcherAny }\<close>, here the pair
  \<open>(matcherAll, matcherAny)\<close>.
\<close>

definition toMatchers ::
  "(string \<Rightarrow> IMinimatch) \<Rightarrow> StringsOrMatchRule \<Rightarrow> IMinimatch list \<times> IMinimatch list" where
  "toMatchers Minimatch config =
     (case config of
        Strings globs \<Rightarrow> ([] @ map Minimatch globs, [])
      | Rule r \<Rightarrow>
          ((case and' r of Some gs \<Rightarrow> [] @ map Minimatch gs | None \<Rightarrow> []),
           (case or' r of Some gs \<Rightarrow> [] @ map Minimatch gs | None \<Rightarrow> [])))"

subsection \<open>Match evaluator\<close>

text \<open>Each \<^verbatim>\<open>for (... of ...)\<close> loop with an early \<^verbatim>\<open>return\<close> is a recursion on the list.\<close>

fun isMatchAll :: "string \<Rightarrow> IMinimatch list \<Rightarrow> bool" where
  "isMatchAll changedFile [] = True"
| "isMatchAll changedFile (matcher # matchers) =
     (if \<not> matcher changedFile then False else isMatchAll changedFile matchers)"

fun isMatchAny_loop :: "string \<Rightarrow> IMinimatch list \<Rightarrow> bool" where
  "isMatchAny_loop changedFile [] = False"
| "isMatchAny_loop changedFile (matcher # matchers) =
     (if matcher changedFile then True else isMatchAny_loop changedFile matchers)"

definition isMatchAny :: "string \<Rightarrow> IMinimatch list \<Rightarrow> bool" where
  "isMatchAny changedFile matchers =
     (if length matchers = 0 then True else isMatchAny_loop changedFile matchers)"

fun checkAny :: "string list \<Rightarrow> IMinimatch list \<Rightarrow> IMinimatch list \<Rightarrow> bool" where
  "checkAny [] matcherAll matcherAny = False"
| "checkAny (changedFile # changedFiles) matcherAll matcherAny =
     (if isMatchAll changedFile matcherAll \<and> isMatchAny changedFile matcherAny then True
      else checkAny changedFiles matcherAll matcherAny)"

text \<open>The two loops of \<open>checkAll\<close>, in the source's order.\<close>

fun checkAll_loop1 :: "string list \<Rightarrow> IMinimatch list \<Rightarrow> bool" where
  "checkAll_loop1 [] matcherAll = True"
| "checkAll_loop1 (changedFile # changedFiles) matcherAll =
     (if \<not> isMatchAll changedFile matcherAll then False
      else checkAll_loop1 changedFiles matcherAll)"

fun checkAll_loop2 :: "string list \<Rightarrow> IMinimatch list \<Rightarrow> bool" where
  "checkAll_loop2 [] matcherAny = True"
| "checkAll_loop2 (changedFile # changedFiles) matcherAny =
     (if \<not> isMatchAny changedFile matcherAny then False
      else checkAll_loop2 changedFiles matcherAny)"

definition checkAll :: "string list \<Rightarrow> IMinimatch list \<Rightarrow> IMinimatch list \<Rightarrow> bool" where
  "checkAll changedFiles matcherAll matcherAny =
     (if \<not> checkAll_loop1 changedFiles matcherAll then False
      else if \<not> checkAll_loop2 changedFiles matcherAny then False
      else True)"

definition checkMatch :: "(string \<Rightarrow> IMinimatch) \<Rightarrow> string list \<Rightarrow> MatchConfig \<Rightarrow> bool" where
  "checkMatch Minimatch changedFiles matchConfig =
     (if (case all' matchConfig of
            Some c \<Rightarrow>
              (case toMatchers Minimatch c of
                 (matcherAll, matcherAny) \<Rightarrow> \<not> checkAll changedFiles matcherAll matcherAny)
          | None \<Rightarrow> False)
      then False
      else if (case any' matchConfig of
                 Some c \<Rightarrow>
                   (case toMatchers Minimatch c of
                      (matcherAll, matcherAny) \<Rightarrow> \<not> checkAny changedFiles matcherAll matcherAny)
               | None \<Rightarrow> False)
      then False
      else True)"

fun checkGlobs :: "(string \<Rightarrow> IMinimatch) \<Rightarrow> string list \<Rightarrow> StringOrMatchConfig list \<Rightarrow> bool" where
  "checkGlobs Minimatch changedFiles [] = False"
| "checkGlobs Minimatch changedFiles (glob # globs) =
     (let matchConfig = toMatchConfig glob
      in if checkMatch Minimatch changedFiles matchConfig then True
         else checkGlobs Minimatch changedFiles globs)"

text \<open>
  The loop body of \<open>checkGlobs\<close> opens with
  \<^verbatim>\<open>core.debug(` checking pattern ${JSON.stringify(glob)}`)\<close>. The function below is the
  same loop returning what it logs there: the entries whose evaluation was started, in
  the order of the calls (the entry itself stands for its JSON text).
\<close>

fun checkGlobs_debug ::
  "(string \<Rightarrow> IMinimatch) \<Rightarrow> string list \<Rightarrow> StringOrMatchConfig list \<Rightarrow> StringOrMatchConfig list" where
  "checkGlobs_debug Minimatch changedFiles [] = []"
| "checkGlobs_debug Minimatch changedFiles (glob # globs) =
     glob # (let matchConfig = toMatchConfig glob
             in if checkMatch Minimatch changedFiles matchConfig then []
                else checkGlobs_debug Minimatch changedFiles globs)"

subsection \<open>Loading the label map\<close>

text \<open>A thrown \<^verbatim>\<open>Error(message)\<close>.\<close>

datatype error = Error string

fun message :: "error \<Rightarrow> string" where
  "message (Error m) = m"

text \<open>
  The value that the parsed configuration holds for one label. The source tells three
  shapes apart: \<^verbatim>\<open>typeof v === "string"\<close>, \<^verbatim>\<open>v instanceof Array\<close>, anything else
  (a number, a boolean, null, a nested mapping). An array is stored under the declared
  type \<^verbatim>\<open>StringOrMatchConfig[]\<close> without a look at its elements.
\<close>

datatype config_value =
    VString string
  | VArray "StringOrMatchConfig list"
  | VNumber int
  | VBool bool
  | VNull
  | VObject "(string \<times> config_value) list"

text \<open>
  \<^verbatim>\<open>Map<string, StringOrMatchConfig[]>\<close>: a JavaScript \<open>Map\<close> iterates in insertion
  order and \<open>set\<close> on a key already present replaces the value in place, which is
  \<open>AList.update\<close> on an association list.
\<close>

type_synonym LabelGlobs = "(string \<times> StringOrMatchConfig list) list"

text \<open>
  \<open>configObject\<close> is given by its enumerable properties \<open>(label, configObject[label])\<close>
  in the order of the \<^verbatim>\<open>for (const label in configObject)\<close> loop.
\<close>

fun getLabelGlobMapFromObject_loop ::
  "(string \<times> config_value) list \<Rightarrow> LabelGlobs \<Rightarrow> error + LabelGlobs" where
  "getLabelGlobMapFromObject_loop [] labelGlobs = Inr labelGlobs"
| "getLabelGlobMapFromObject_loop ((label, v) # rest) labelGlobs =
     (case v of
        VString s \<Rightarrow> getLabelGlobMapFromObject_loop rest (AList.update label [Str s] labelGlobs)
      | VArray a \<Rightarrow> getLabelGlobMapFromObject_loop rest (AList.update label a labelGlobs)
      | _ \<Rightarrow> Inl (Error (''found unexpected type for label '' @ label
                          @ '' (should be string or array of globs)'')))"

definition getLabelGlobMapFromObject :: "(string \<times> config_value) list \<Rightarrow> error + LabelGlobs" where
  "getLabelGlobMapFromObject configObject = getLabelGlobMapFromObject_loop configObject []"

subsection \<open>The run\<close>

text \<open>
  \<open>run\<close> talks to the outside through \<open>core\<close>, \<open>console\<close> and the GitHub client. What
  it gets from there is a field of \<open>run_env\<close>, an error where the call throws; what it
  does there is the list of effects it returns, in the order of the calls.
  \<^item> \<open>getInput_repo_token\<close>, \<open>getInput_configuration_path\<close>: the two required inputs
    (\<open>core.getInput\<close> with \<^verbatim>\<open>required: true\<close> throws when the input is missing);
  \<^item> \<open>getInput_sync_labels\<close>: the text \<^verbatim>\<open>core.getInput("sync-labels", { required: false })\<close>,
    empty when the input is not set;
  \<^item> \<open>payload_pull_request\<close>: \<open>github.context.payload.pull_request\<close>, by its number;
  \<^item> \<open>pulls_get\<close>: the outcome of \<open>client.rest.pulls.get\<close>, by the names \<open>l.name\<close> of
    \<open>pullRequest.labels\<close>;
  \<^item> \<open>getChangedFiles_outcome\<close>: the outcome of \<open>getChangedFiles\<close>;
  \<^item> \<open>yaml_load\<close>: the outcome of \<open>fetchContent\<close> followed by \<open>yaml.load\<close>;
  \<^item> \<open>addLabels_outcome\<close>, \<open>removeLabels_outcome\<close>: the error with which the awaited
    call rejects, if it does.
\<close>

datatype effect =
    ConsoleLog string
  | AddLabels nat "string list"
  | RemoveLabel nat string
  | CoreError error
  | SetFailed string

record run_env =
  getInput_repo_token :: "error + string"
  getInput_configuration_path :: "error + string"
  getInput_sync_labels :: string
  payload_pull_request :: "nat option"
  pulls_get :: "error + string list"
  getChangedFiles_outcome :: "error + string list"
  yaml_load :: "error + (string \<times> config_value) list"
  addLabels_outcome :: "error option"
  removeLabels_outcome :: "error option"

definition getPrNumber :: "run_env \<Rightarrow> nat option" where
  "getPrNumber env = (case payload_pull_request env of None \<Rightarrow> None | Some n \<Rightarrow> Some n)"

definition getLabelGlobs :: "run_env \<Rightarrow> error + LabelGlobs" where
  "getLabelGlobs env =
     (case yaml_load env of
        Inl e \<Rightarrow> Inl e
      | Inr configObject \<Rightarrow> getLabelGlobMapFromObject configObject)"

text \<open>
  The loop over \<open>labelGlobs.entries()\<close>; \<open>push\<close> appends.
  \<^verbatim>\<open>pullRequest.labels.find((l) => l.name === label)\<close> is truthy when it finds an element.
\<close>

fun run_loop ::
  "(string \<Rightarrow> IMinimatch) \<Rightarrow> string list \<Rightarrow> string list \<Rightarrow> LabelGlobs
   \<Rightarrow> string list \<Rightarrow> string list \<Rightarrow> string list \<times> string list" where
  "run_loop Minimatch changedFiles pullRequest_labels [] labels labelsToRemove =
     (labels, labelsToRemove)"
| "run_loop Minimatch changedFiles pullRequest_labels ((label, globs) # rest) labels labelsToRemove =
     (if checkGlobs Minimatch changedFiles globs
      then run_loop Minimatch changedFiles pullRequest_labels rest (labels @ [label]) labelsToRemove
      else if find (\<lambda>l. l = label) pullRequest_labels \<noteq> None
      then run_loop Minimatch changedFiles pullRequest_labels rest labels (labelsToRemove @ [label])
      else run_loop Minimatch changedFiles pullRequest_labels rest labels labelsToRemove)"

text \<open>The \<open>catch\<close> block: \<^verbatim>\<open>core.error(error); core.setFailed(error.message);\<close>\<close>

definition run_catch :: "error \<Rightarrow> effect list" where
  "run_catch error = [CoreError error, SetFailed (message error)]"

text \<open>
  \<^verbatim>\<open>if (syncLabels && labelsToRemove.length) { await removeLabels(...) }\<close>:
  \<open>removeLabels\<close> issues one \<open>removeLabel\<close> call per label, all of them before the
  \<open>Promise.all\<close> is awaited.
\<close>

definition run_remove :: "run_env \<Rightarrow> bool \<Rightarrow> nat \<Rightarrow> string list \<Rightarrow> effect list" where
  "run_remove env syncLabels prNumber labelsToRemove =
     (if syncLabels \<and> length labelsToRemove \<noteq> 0
      then map (RemoveLabel prNumber) labelsToRemove
           @ (case removeLabels_outcome env of Some e \<Rightarrow> run_catch e | None \<Rightarrow> [])
      else [])"

text \<open>
  \<^verbatim>\<open>!!core.getInput(...)\<close> is true for every non-empty text. \<^verbatim>\<open>!prNumber\<close> holds for
  \<open>undefined\<close> and for \<open>0\<close>.
\<close>

definition run :: "(string \<Rightarrow> IMinimatch) \<Rightarrow> run_env \<Rightarrow> effect list" where
  "run Minimatch env =
     (case getInput_repo_token env of Inl e \<Rightarrow> run_catch e | Inr token \<Rightarrow>
      case getInput_configuration_path env of Inl e \<Rightarrow> run_catch e | Inr configPath \<Rightarrow>
      let syncLabels = (getInput_sync_labels env \<noteq> [])
      in case getPrNumber env of
           None \<Rightarrow> [ConsoleLog ''Could not get pull request number from context, exiting'']
         | Some prNumber \<Rightarrow>
             if prNumber = 0
             then [ConsoleLog ''Could not get pull request number from context, exiting'']
             else
               (case pulls_get env of Inl e \<Rightarrow> run_catch e | Inr pullRequest_labels \<Rightarrow>
                case getChangedFiles_outcome env of Inl e \<Rightarrow> run_catch e | Inr changedFiles \<Rightarrow>
                case getLabelGlobs env of Inl e \<Rightarrow> run_catch e | Inr labelGlobs \<Rightarrow>
                  (case run_loop Minimatch changedFiles pullRequest_labels labelGlobs [] [] of
                     (labels, labelsToRemove) \<Rightarrow>
                       if length labels > 0
                       then AddLabels prNumber labels
                            # (case addLabels_outcome env of
                                 Some e \<Rightarrow> run_catch e
                               | None \<Rightarrow> run_remove env syncLabels prNumber labelsToRemove)
                       else run_remove env syncLabels prNumber labelsToRemove)))"

section \<open>Properties\<close>

subsection \<open>The loops as quantifiers\<close>

lemma isMatchAll_iff: "isMatchAll f ms \<longleftrightarrow> (\<forall>m\<in>set ms. m f)"
  by (induction ms) auto

lemma isMatchAny_loop_iff: "isMatchAny_loop f ms \<longleftrightarrow> (\<exists>m\<in>set ms. m f)"
  by (induction ms) auto

lemma isMatchAny_iff: "isMatchAny f ms \<longleftrightarrow> ms = [] \<or> (\<exists>m\<in>set ms. m f)"
  by (simp add: isMatchAny_def isMatchAny_loop_iff)

lemma checkAny_iff:
  "checkAny fs mAll mAny \<longleftrightarrow> (\<exists>f\<in>set fs. isMatchAll f mAll \<and> isMatchAny f mAny)"
  by (induction fs) auto

lemma checkAll_loop1_iff: "checkAll_loop1 fs mAll \<longleftrightarrow> (\<forall>f\<in>set fs. isMatchAll f mAll)"
  by (induction fs) auto

lemma checkAll_loop2_iff: "checkAll_loop2 fs mAny \<longleftrightarrow> (\<forall>f\<in>set fs. isMatchAny f mAny)"
  by (induction fs) auto

lemma checkAll_iff:
  "checkAll fs mAll mAny \<longleftrightarrow> (\<forall>f\<in>set fs. isMatchAll f mAll) \<and> (\<forall>f\<in>set fs. isMatchAny f mAny)"
  by (simp add: checkAll_def checkAll_loop1_iff checkAll_loop2_iff)

subsection \<open>checkGlobs\<close>

text \<open>
  Claim C1. \<open>checkGlobs\<close> returns true exactly when at least one entry of \<open>globs\<close>
  matches the changed files, and its result is the disjunction over all entries. The
  entries are evaluated in input order and no entry after the first matching one is
  evaluated: the entries whose evaluation is started are those before the first match,
  followed by that match.
\<close>

theorem checkGlobs_iff_some_entry_matches:
  "(checkGlobs Minimatch changedFiles globs \<longleftrightarrow>
      (\<exists>glob\<in>set globs. checkMatch Minimatch changedFiles (toMatchConfig glob)))
   \<and> checkGlobs Minimatch changedFiles globs =
       foldr (\<lambda>glob b. checkMatch Minimatch changedFiles (toMatchConfig glob) \<or> b) globs False
   \<and> checkGlobs_debug Minimatch changedFiles globs =
       takeWhile (\<lambda>glob. \<not> checkMatch Minimatch changedFiles (toMatchConfig glob)) globs
       @ take 1 (dropWhile (\<lambda>glob. \<not> checkMatch Minimatch changedFiles (toMatchConfig glob)) globs)"
  by (induction globs) (auto simp: Let_def)

theorem checkGlobs_iff_some_entry_matches_witness:
  "checkGlobs (=) [''b''] [Str ''a'', Str ''b'', Str ''c'']
   \<and> (\<exists>glob\<in>set [Str ''a'', Str ''b'', Str ''c''].
          checkMatch (=) [''b''] (toMatchConfig glob))
   \<and> checkGlobs_debug (=) [''b''] [Str ''a'', Str ''b'', Str ''c''] = [Str ''a'', Str ''b'']
   \<and> \<not> checkGlobs (=) [''d''] [Str ''a'', Str ''b'', Str ''c'']"
  using checkGlobs_iff_some_entry_matches [of "(=)" "[''b'']" "[Str ''a'', Str ''b'', Str ''c'']"]
    checkGlobs_iff_some_entry_matches [of "(=)" "[''d'']" "[Str ''a'', Str ''b'', Str ''c'']"]
  by (simp add: toMatchConfig_def checkMatch_def toMatchers_def isMatchAny_def)

subsection \<open>A single rule\<close>

text \<open>
  In the statements below a file \<open>f\<close> matches a glob \<open>g\<close> when \<open>Minimatch g f\<close>
  holds, that is when \<^verbatim>\<open>new Minimatch(g).match(f)\<close> is true; a rule matches when
  \<open>checkMatch\<close> accepts its normal form.
\<close>

lemma checkMatch_all_only:
  "checkMatch M fs \<lparr>all' = Some c, any' = None\<rparr> \<longleftrightarrow>
     checkAll fs (fst (toMatchers M c)) (snd (toMatchers M c))"
  by (simp add: checkMatch_def case_prod_beta)

lemma checkMatch_any_only:
  "checkMatch M fs \<lparr>all' = None, any' = Some c\<rparr> \<longleftrightarrow>
     checkAny fs (fst (toMatchers M c)) (snd (toMatchers M c))"
  by (simp add: checkMatch_def case_prod_beta)

lemma toMatchConfig_Cfg: "toMatchConfig (Cfg c) = c"
  by (simp add: toMatchConfig_def)

text \<open>
  Claim C2. For every list of changed files and every glob list \<open>L\<close> (the non-empty
  ones among them), the rule \<open>{all: L}\<close> in plain list form matches if and only if every
  changed file matches every glob of \<open>L\<close>.
\<close>

theorem all_list_matches_iff_every_file_every_glob:
  "(checkMatch Minimatch changedFiles (toMatchConfig (Cfg \<lparr>all' = Some (Strings L), any' = None\<rparr>))
      \<longleftrightarrow> (\<forall>f\<in>set changedFiles. \<forall>g\<in>set L. Minimatch g f))
   \<and> (checkGlobs Minimatch changedFiles [Cfg \<lparr>all' = Some (Strings L), any' = None\<rparr>]
      \<longleftrightarrow> (\<forall>f\<in>set changedFiles. \<forall>g\<in>set L. Minimatch g f))"
  by (simp add: toMatchConfig_Cfg checkMatch_all_only toMatchers_def
        checkAll_iff isMatchAll_iff isMatchAny_iff)

theorem all_list_matches_iff_every_file_every_glob_witness:
  "checkMatch (=) [''a'', ''a''] (toMatchConfig (Cfg \<lparr>all' = Some (Strings [''a'']), any' = None\<rparr>))
   \<and> \<not> checkMatch (=) [''a'', ''b''] (toMatchConfig (Cfg \<lparr>all' = Some (Strings [''a'']), any' = None\<rparr>))
   \<and> \<not> (\<forall>f\<in>set [''a'', ''b'']. \<forall>g\<in>set [''a'']. g = f)"
  using all_list_matches_iff_every_file_every_glob [of "(=)" "[''a'', ''a'']" "[''a'']"]
    all_list_matches_iff_every_file_every_glob [of "(=)" "[''a'', ''b'']" "[''a'']"]
  by simp

text \<open>
  Claim C3. For every list of changed files and every glob list \<open>L\<close> (the non-empty
  ones among them), the rule \<open>{any: L}\<close> in plain list form matches if and only if some
  changed file matches every glob of \<open>L\<close>: the list is a conjunction of globs under an
  existential over files, not a disjunction of globs.
\<close>

theorem any_list_matches_iff_some_file_every_glob:
  "(checkMatch Minimatch changedFiles (toMatchConfig (Cfg \<lparr>all' = None, any' = Some (Strings L)\<rparr>))
      \<longleftrightarrow> (\<exists>f\<in>set changedFiles. \<forall>g\<in>set L. Minimatch g f))
   \<and> (checkGlobs Minimatch changedFiles [Cfg \<lparr>all' = None, any' = Some (Strings L)\<rparr>]
      \<longleftrightarrow> (\<exists>f\<in>set changedFiles. \<forall>g\<in>set L. Minimatch g f))"
  by (simp add: toMatchConfig_Cfg checkMatch_any_only toMatchers_def
        checkAny_iff isMatchAll_iff isMatchAny_iff)

theorem any_list_matches_iff_some_file_every_glob_witness:
  "checkMatch (=) [''a'', ''b''] (toMatchConfig (Cfg \<lparr>all' = None, any' = Some (Strings [''b''])\<rparr>))
   \<and> (\<exists>f\<in>set [''a'', ''b'']. \<forall>g\<in>set [''b'']. g = f)
   \<and> \<not> checkMatch (=) [''a'', ''b''] (toMatchConfig (Cfg \<lparr>all' = None, any' = Some (Strings [''a'', ''b''])\<rparr>))
   \<and> \<not> (\<exists>f\<in>set [''a'', ''b'']. \<forall>g\<in>set [''a'', ''b'']. g = f)"
  using any_list_matches_iff_some_file_every_glob [of "(=)" "[''a'', ''b'']" "[''b'']"]
    any_list_matches_iff_some_file_every_glob [of "(=)" "[''a'', ''b'']" "[''a'', ''b'']"]
  by simp

text \<open>
  Claim C4. For every list of changed files, the rule \<open>{all: {and, or}}\<close> matches if and
  only if every changed file matches every pattern of \<open>and\<close> (when \<open>and\<close> is present) and
  every changed file matches at least one pattern of \<open>or\<close> (when \<open>or\<close> is present and not
  empty); an absent or empty \<open>or\<close> list is satisfied by every file.
\<close>

theorem all_rule_matches_iff:
  "checkMatch Minimatch changedFiles
      (toMatchConfig (Cfg \<lparr>all' = Some (Rule \<lparr>and' = a, or' = b\<rparr>), any' = None\<rparr>))
   \<longleftrightarrow>
     (\<forall>f\<in>set changedFiles. \<forall>gs. a = Some gs \<longrightarrow> (\<forall>g\<in>set gs. Minimatch g f))
     \<and> (\<forall>f\<in>set changedFiles. \<forall>gs. b = Some gs \<longrightarrow> gs = [] \<or> (\<exists>g\<in>set gs. Minimatch g f))"
  by (cases a; cases b)
     (simp_all add: toMatchConfig_Cfg checkMatch_all_only toMatchers_def
        checkAll_iff isMatchAll_iff isMatchAny_iff)

theorem all_rule_matches_iff_witness:
  "checkMatch (=) [''a'', ''b'']
      (toMatchConfig (Cfg \<lparr>all' = Some (Rule \<lparr>and' = None, or' = Some [''a'', ''b'', ''c'']\<rparr>), any' = None\<rparr>))
   \<and> \<not> checkMatch (=) [''d'', ''b'']
      (toMatchConfig (Cfg \<lparr>all' = Some (Rule \<lparr>and' = None, or' = Some [''a'', ''b'', ''c'']\<rparr>), any' = None\<rparr>))
   \<and> checkMatch (=) [''d'', ''b'']
      (toMatchConfig (Cfg \<lparr>all' = Some (Rule \<lparr>and' = Some [], or' = Some []\<rparr>), any' = None\<rparr>))
   \<and> \<not> checkMatch (=) [''a'', ''b'']
      (toMatchConfig (Cfg \<lparr>all' = Some (Rule \<lparr>and' = Some [''a''], or' = None\<rparr>), any' = None\<rparr>))"
  using all_rule_matches_iff [of "(=)" "[''a'', ''b'']" None "Some [''a'', ''b'', ''c'']"]
    all_rule_matches_iff [of "(=)" "[''d'', ''b'']" None "Some [''a'', ''b'', ''c'']"]
    all_rule_matches_iff [of "(=)" "[''d'', ''b'']" "Some []" "Some []"]
    all_rule_matches_iff [of "(=)" "[''a'', ''b'']" "Some [''a'']" None]
  by simp

text \<open>
  Claim C5. For the empty list of changed files, the \<open>all\<close> part of every rule evaluates
  to true and the \<open>any\<close> part of every rule evaluates to false, whatever the matchers of
  the condition are (those of a non-empty condition in particular); hence \<open>{all: L}\<close>
  matches and \<open>{any: L}\<close> does not, and no rule with an \<open>any\<close> part matches.
\<close>

theorem no_changed_files:
  "checkAll [] matcherAll matcherAny
   \<and> \<not> checkAny [] matcherAll matcherAny
   \<and> checkMatch Minimatch [] (toMatchConfig (Cfg \<lparr>all' = Some (Strings L), any' = None\<rparr>))
   \<and> \<not> checkMatch Minimatch [] (toMatchConfig (Cfg \<lparr>all' = None, any' = Some (Strings L)\<rparr>))
   \<and> checkMatch Minimatch [] (toMatchConfig (Cfg \<lparr>all' = Some c, any' = None\<rparr>))
   \<and> \<not> checkMatch Minimatch [] (toMatchConfig (Cfg \<lparr>all' = a, any' = Some c\<rparr>))"
  by (cases a) (simp_all add: toMatchConfig_Cfg checkMatch_def checkAll_def case_prod_beta)

theorem no_changed_files_witness:
  "checkMatch (=) [] (toMatchConfig (Cfg \<lparr>all' = Some (Strings [''a'']), any' = None\<rparr>))
   \<and> \<not> checkMatch (=) [] (toMatchConfig (Cfg \<lparr>all' = None, any' = Some (Strings [''a''])\<rparr>))"
  using no_changed_files [of "[]" "[]" "(=)" "[''a'']" "Strings [''a'']" None]
  by simp

text \<open>
  Claim C6. For every file path, \<open>isMatchAny\<close> with no matchers is true. Consequently the
  rules \<open>{any: []}\<close> and \<open>{any: {or: []}}\<close> match if and only if the list of changed files
  is not empty, while \<open>{all: []}\<close> matches every list of changed files, the empty one
  included.
\<close>

theorem empty_pattern_lists:
  "isMatchAny changedFile []
   \<and> (checkMatch Minimatch changedFiles (toMatchConfig (Cfg \<lparr>all' = None, any' = Some (Strings [])\<rparr>))
        \<longleftrightarrow> changedFiles \<noteq> [])
   \<and> (checkMatch Minimatch changedFiles
          (toMatchConfig (Cfg \<lparr>all' = None, any' = Some (Rule \<lparr>and' = None, or' = Some []\<rparr>)\<rparr>))
        \<longleftrightarrow> changedFiles \<noteq> [])
   \<and> checkMatch Minimatch changedFiles (toMatchConfig (Cfg \<lparr>all' = Some (Strings []), any' = None\<rparr>))
   \<and> checkMatch Minimatch [] (toMatchConfig (Cfg \<lparr>all' = Some (Strings []), any' = None\<rparr>))"
  by (simp add: toMatchConfig_Cfg checkMatch_all_only checkMatch_any_only toMatchers_def
        checkAll_iff checkAny_iff isMatchAll_iff isMatchAny_iff ex_in_conv)

theorem empty_pattern_lists_witness:
  "isMatchAny ''a'' []
   \<and> checkMatch (=) [''a''] (toMatchConfig (Cfg \<lparr>all' = None, any' = Some (Strings [])\<rparr>))
   \<and> \<not> checkMatch (=) [] (toMatchConfig (Cfg \<lparr>all' = None, any' = Some (Strings [])\<rparr>))
   \<and> checkMatch (=) [''a'']
        (toMatchConfig (Cfg \<lparr>all' = None, any' = Some (Rule \<lparr>and' = None, or' = Some []\<rparr>)\<rparr>))
   \<and> \<not> checkMatch (=) []
        (toMatchConfig (Cfg \<lparr>all' = None, any' = Some (Rule \<lparr>and' = None, or' = Some []\<rparr>)\<rparr>))"
  using empty_pattern_lists [of "''a''" "(=)" "[''a'']"] empty_pattern_lists [of "''a''" "(=)" "[]"]
  by simp

subsection \<open>The normalizer\<close>

text \<open>
  Claim C7. For every string \<open>s\<close> the normalizer turns the bare-string rule \<open>s\<close> into
  \<open>{any: [s]}\<close>, and it returns every structured \<open>MatchConfig\<close> object unchanged;
  consequently \<open>checkGlobs(files, [s])\<close> equals \<open>checkGlobs(files, [{any: [s]}])\<close> for every
  list of changed files. The normalizer has no error path: \<open>toMatchConfig\<close> is a total
  function into \<open>MatchConfig\<close>, with no error among its results.
\<close>

theorem toMatchConfig_normalizes:
  "toMatchConfig (Str s) = \<lparr>all' = None, any' = Some (Strings [s])\<rparr>
   \<and> toMatchConfig (Cfg c) = c
   \<and> checkGlobs Minimatch changedFiles [Str s] =
       checkGlobs Minimatch changedFiles [Cfg \<lparr>all' = None, any' = Some (Strings [s])\<rparr>]"
  by (simp add: toMatchConfig_def)

theorem toMatchConfig_normalizes_witness:
  "toMatchConfig (Str ''a'') = \<lparr>all' = None, any' = Some (Strings [''a''])\<rparr>
   \<and> checkGlobs (=) [''b'', ''a''] [Str ''a'']
   \<and> checkGlobs (=) [''b'', ''a''] [Cfg \<lparr>all' = None, any' = Some (Strings [''a''])\<rparr>]"
  using toMatchConfig_normalizes [of "''a''" "\<lparr>all' = None, any' = None\<rparr>" "(=)" "[''b'', ''a'']"]
  by (simp add: toMatchConfig_def checkMatch_def toMatchers_def isMatchAny_def)

subsection \<open>The label map\<close>

lemma update_fresh: "k \<notin> fst ` set al \<Longrightarrow> AList.update k v al = al @ [(k, v)]"
  by (induction al) auto

lemma loop_accepts:
  "\<lbrakk>\<forall>(l, v)\<in>set cfg. (\<exists>s. v = VString s) \<or> (\<exists>a. v = VArray a);
    distinct (map fst cfg); fst ` set cfg \<inter> fst ` set acc = {}\<rbrakk>
   \<Longrightarrow> \<exists>m. getLabelGlobMapFromObject_loop cfg acc = Inr (acc @ m)
         \<and> map fst m = map fst cfg
         \<and> (\<forall>l s. (l, VString s) \<in> set cfg \<longrightarrow> (l, [Str s]) \<in> set m)
         \<and> (\<forall>l a. (l, VArray a) \<in> set cfg \<longrightarrow> (l, a) \<in> set m)"
proof (induction cfg arbitrary: acc)
  case Nil
  then show ?case by simp
next
  case (Cons p cfg)
  obtain label v where p: "p = (label, v)" by (cases p)
  from Cons.prems(3) p have fresh: "label \<notin> fst ` set acc" by auto
  from Cons.prems(1) p consider s where "v = VString s" | a where "v = VArray a" by auto
  then obtain gs where gs: "getLabelGlobMapFromObject_loop (p # cfg) acc =
        getLabelGlobMapFromObject_loop cfg (AList.update label gs acc)"
      and gs_s: "\<And>s. v = VString s \<Longrightarrow> gs = [Str s]"
      and gs_a: "\<And>a. v = VArray a \<Longrightarrow> gs = a"
    by (cases; simp add: p)
  let ?acc = "acc @ [(label, gs)]"
  have upd: "AList.update label gs acc = ?acc" using fresh by (rule update_fresh)
  have 1: "\<forall>(l, v)\<in>set cfg. (\<exists>s. v = VString s) \<or> (\<exists>a. v = VArray a)"
    using Cons.prems(1) by simp
  have 2: "distinct (map fst cfg)" using Cons.prems(2) by simp
  have 3: "fst ` set cfg \<inter> fst ` set ?acc = {}"
    using Cons.prems(2,3) p by auto
  from Cons.IH [OF 1 2 3] obtain m where m:
    "getLabelGlobMapFromObject_loop cfg ?acc = Inr (?acc @ m)"
    "map fst m = map fst cfg"
    "\<forall>l s. (l, VString s) \<in> set cfg \<longrightarrow> (l, [Str s]) \<in> set m"
    "\<forall>l a. (l, VArray a) \<in> set cfg \<longrightarrow> (l, a) \<in> set m"
    by blast
  show ?case
  proof (intro exI [of _ "(label, gs) # m"] conjI)
    show "getLabelGlobMapFromObject_loop (p # cfg) acc = Inr (acc @ (label, gs) # m)"
      using gs upd m(1) by simp
    show "map fst ((label, gs) # m) = map fst (p # cfg)"
      using m(2) p by simp
    show "\<forall>l s. (l, VString s) \<in> set (p # cfg) \<longrightarrow> (l, [Str s]) \<in> set ((label, gs) # m)"
      using m(3) p gs_s by auto
    show "\<forall>l a. (l, VArray a) \<in> set (p # cfg) \<longrightarrow> (l, a) \<in> set ((label, gs) # m)"
      using m(4) p gs_a by auto
  qed
qed

lemma loop_rejects:
  "\<lbrakk>\<forall>(l, w)\<in>set pre. (\<exists>s. w = VString s) \<or> (\<exists>a. w = VArray a);
    \<not> ((\<exists>s. v = VString s) \<or> (\<exists>a. v = VArray a))\<rbrakk>
   \<Longrightarrow> getLabelGlobMapFromObject_loop (pre @ (label, v) # post) acc =
         Inl (Error (''found unexpected type for label '' @ label
                     @ '' (should be string or array of globs)''))"
proof (induction pre arbitrary: acc)
  case Nil
  then show ?case by (cases v) simp_all
next
  case (Cons p pre)
  obtain l w where p: "p = (l, w)" by (cases p)
  from Cons.prems(1) p consider s where "w = VString s" | a where "w = VArray a" by auto
  then show ?case
    using Cons.IH Cons.prems by cases (simp_all add: p)
qed

text \<open>
  Claim C8. For every raw configuration object (its labels being distinct keys),
  \<open>getLabelGlobMapFromObject\<close> maps each label whose value is a string to the one-element
  sequence of that string and each label whose value is an array to that array unchanged,
  the labels keeping their order. When some label's value is neither a string nor an
  array, it throws, at the first such label, the error whose message names that label;
  a run that has come to load this configuration then ends in that failure whatever the
  matcher constructor is: no matcher has been constructed or run, and no label is added
  or removed.
\<close>

theorem getLabelGlobMapFromObject_shapes:
  "(distinct (map fst cfg) \<and> (\<forall>(l, v)\<in>set cfg. (\<exists>s. v = VString s) \<or> (\<exists>a. v = VArray a))
      \<longrightarrow> (\<exists>labelGlobs. getLabelGlobMapFromObject cfg = Inr labelGlobs
             \<and> map fst labelGlobs = map fst cfg
             \<and> (\<forall>label s. (label, VString s) \<in> set cfg \<longrightarrow> map_of labelGlobs label = Some [Str s])
             \<and> (\<forall>label a. (label, VArray a) \<in> set cfg \<longrightarrow> map_of labelGlobs label = Some a)))
   \<and> (\<forall>pre label v post.
         cfg = pre @ (label, v) # post
         \<and> (\<forall>(l, w)\<in>set pre. (\<exists>s. w = VString s) \<or> (\<exists>a. w = VArray a))
         \<and> \<not> ((\<exists>s. v = VString s) \<or> (\<exists>a. v = VArray a))
         \<longrightarrow> getLabelGlobMapFromObject cfg =
               Inl (Error (''found unexpected type for label '' @ label
                           @ '' (should be string or array of globs)''))
             \<and> (\<forall>Minimatch (env :: run_env) n token configPath pullRequest_labels changedFiles.
                   getInput_repo_token env = Inr token
                   \<and> getInput_configuration_path env = Inr configPath
                   \<and> payload_pull_request env = Some n \<and> n \<noteq> 0
                   \<and> pulls_get env = Inr pullRequest_labels
                   \<and> getChangedFiles_outcome env = Inr changedFiles
                   \<and> yaml_load env = Inr cfg
                   \<longrightarrow> run Minimatch env =
                         [CoreError (Error (''found unexpected type for label '' @ label
                                            @ '' (should be string or array of globs)'')),
                          SetFailed (''found unexpected type for label '' @ label
                                     @ '' (should be string or array of globs)'')]))"
proof (intro conjI impI allI)
  assume a: "distinct (map fst cfg)
     \<and> (\<forall>(l, v)\<in>set cfg. (\<exists>s. v = VString s) \<or> (\<exists>a. v = VArray a))"
  then have "\<exists>m. getLabelGlobMapFromObject_loop cfg [] = Inr ([] @ m)
         \<and> map fst m = map fst cfg
         \<and> (\<forall>l s. (l, VString s) \<in> set cfg \<longrightarrow> (l, [Str s]) \<in> set m)
         \<and> (\<forall>l a. (l, VArray a) \<in> set cfg \<longrightarrow> (l, a) \<in> set m)"
    by (intro loop_accepts) auto
  then obtain m where m: "getLabelGlobMapFromObject cfg = Inr m" "map fst m = map fst cfg"
     "\<forall>l s. (l, VString s) \<in> set cfg \<longrightarrow> (l, [Str s]) \<in> set m"
     "\<forall>l a. (l, VArray a) \<in> set cfg \<longrightarrow> (l, a) \<in> set m"
    by (auto simp: getLabelGlobMapFromObject_def)
  have d: "distinct (map fst m)" using a m(2) by simp
  show "\<exists>labelGlobs. getLabelGlobMapFromObject cfg = Inr labelGlobs
             \<and> map fst labelGlobs = map fst cfg
             \<and> (\<forall>label s. (label, VString s) \<in> set cfg \<longrightarrow> map_of labelGlobs label = Some [Str s])
             \<and> (\<forall>label a. (label, VArray a) \<in> set cfg \<longrightarrow> map_of labelGlobs label = Some a)"
    using m d by (intro exI [of _ m]) (simp add: map_of_eq_Some_iff)
next
  fix pre label v post
  assume b: "cfg = pre @ (label, v) # post
         \<and> (\<forall>(l, w)\<in>set pre. (\<exists>s. w = VString s) \<or> (\<exists>a. w = VArray a))
         \<and> \<not> ((\<exists>s. v = VString s) \<or> (\<exists>a. v = VArray a))"
  then have c: "cfg = pre @ (label, v) # post"
    and p: "\<forall>(l, w)\<in>set pre. (\<exists>s. w = VString s) \<or> (\<exists>a. w = VArray a)"
    and n: "\<not> ((\<exists>s. v = VString s) \<or> (\<exists>a. v = VArray a))"
    by blast+
  show e: "getLabelGlobMapFromObject cfg =
               Inl (Error (''found unexpected type for label '' @ label
                           @ '' (should be string or array of globs)''))"
    by (simp only: c getLabelGlobMapFromObject_def loop_rejects [OF p n])
  fix Minimatch :: "string \<Rightarrow> IMinimatch" and env :: run_env and n
    and token configPath :: string and pullRequest_labels changedFiles :: "string list"
  assume "getInput_repo_token env = Inr token
                   \<and> getInput_configuration_path env = Inr configPath
                   \<and> payload_pull_request env = Some n \<and> n \<noteq> 0
                   \<and> pulls_get env = Inr pullRequest_labels
                   \<and> getChangedFiles_outcome env = Inr changedFiles
                   \<and> yaml_load env = Inr cfg"
  then show "run Minimatch env =
                         [CoreError (Error (''found unexpected type for label '' @ label
                                            @ '' (should be string or array of globs)'')),
                          SetFailed (''found unexpected type for label '' @ label
                                     @ '' (should be string or array of globs)'')]"
    using e by (simp add: run_def getPrNumber_def getLabelGlobs_def run_catch_def)
qed

theorem getLabelGlobMapFromObject_shapes_witness:
  "getLabelGlobMapFromObject
      [(''docs'', VString ''a.md''), (''src'', VArray [Str ''b'', Cfg \<lparr>all' = Some (Strings [''c'']), any' = None\<rparr>])]
    = Inr [(''docs'', [Str ''a.md'']), (''src'', [Str ''b'', Cfg \<lparr>all' = Some (Strings [''c'']), any' = None\<rparr>])]
   \<and> getLabelGlobMapFromObject [(''docs'', VString ''a.md''), (''n'', VNumber 3), (''z'', VNull)]
    = Inl (Error ''found unexpected type for label n (should be string or array of globs)'')
   \<and> run (=) \<lparr>getInput_repo_token = Inr ''t'', getInput_configuration_path = Inr ''p'',
               getInput_sync_labels = ''true'', payload_pull_request = Some 7,
               pulls_get = Inr [''docs''], getChangedFiles_outcome = Inr [''a.md''],
               yaml_load = Inr [(''docs'', VString ''a.md''), (''n'', VNumber 3), (''z'', VNull)],
               addLabels_outcome = None, removeLabels_outcome = None\<rparr>
    = [CoreError (Error ''found unexpected type for label n (should be string or array of globs)''),
       SetFailed ''found unexpected type for label n (should be string or array of globs)'']"
  using getLabelGlobMapFromObject_shapes
      [of "[(''docs'', VString ''a.md''), (''src'', VArray [Str ''b'', Cfg \<lparr>all' = Some (Strings [''c'']), any' = None\<rparr>])]"]
    getLabelGlobMapFromObject_shapes
      [of "[(''docs'', VString ''a.md''), (''n'', VNumber 3), (''z'', VNull)]"]
  by (simp add: getLabelGlobMapFromObject_def run_def getPrNumber_def getLabelGlobs_def run_catch_def)

subsection \<open>Removal of labels\<close>

lemma find_eq_iff: "(\<exists>y. find (\<lambda>l. l = x) xs = Some y) \<longleftrightarrow> x \<in> set xs"
  by (induction xs) auto

lemma run_loop_eq:
  "run_loop M files prl lg labels ltr =
     (labels @ map fst (filter (\<lambda>(l, g). checkGlobs M files g) lg),
      ltr @ map fst (filter (\<lambda>(l, g). \<not> checkGlobs M files g \<and> l \<in> set prl) lg))"
proof (induction lg arbitrary: labels ltr)
  case Nil
  show ?case by simp
next
  case (Cons p lg)
  obtain label globs where p: "p = (label, globs)" by (cases p)
  show ?case by (simp add: p Cons.IH find_eq_iff)
qed

lemma run_loop_removals:
  "label \<in> set (snd (run_loop M files prl lg [] [])) \<longleftrightarrow>
     label \<in> set prl \<and> (\<exists>globs. (label, globs) \<in> set lg \<and> \<not> checkGlobs M files globs)"
  by (force simp: run_loop_eq)

lemma run_loop_additions:
  "fst (run_loop M files prl lg [] []) = [] \<longleftrightarrow> (\<forall>(l, g)\<in>set lg. \<not> checkGlobs M files g)"
  by (auto simp: run_loop_eq filter_empty_conv)

lemma run_remove_RemoveLabel:
  "RemoveLabel n label \<in> set (run_remove env sync k ltr) \<longleftrightarrow> sync \<and> k = n \<and> label \<in> set ltr"
  by (auto simp: run_remove_def run_catch_def split: option.splits)

lemma run_catch_RemoveLabel: "RemoveLabel n label \<notin> set (run_catch e)"
  by (simp add: run_catch_def)

lemma run_RemoveLabel:
  "RemoveLabel n label \<in> set (run M env) \<longleftrightarrow>
     getInput_sync_labels env \<noteq> [] \<and> payload_pull_request env = Some n \<and> n \<noteq> 0
     \<and> (\<exists>token configPath prl files lg.
          getInput_repo_token env = Inr token \<and> getInput_configuration_path env = Inr configPath
          \<and> pulls_get env = Inr prl \<and> getChangedFiles_outcome env = Inr files
          \<and> getLabelGlobs env = Inr lg
          \<and> (fst (run_loop M files prl lg [] []) = [] \<or> addLabels_outcome env = None)
          \<and> label \<in> set (snd (run_loop M files prl lg [] [])))"
  by (cases "getInput_repo_token env"; cases "getInput_configuration_path env";
      cases "payload_pull_request env"; cases "pulls_get env";
      cases "getChangedFiles_outcome env"; cases "getLabelGlobs env";
      cases "addLabels_outcome env")
     (auto simp: run_def getPrNumber_def Let_def case_prod_beta run_remove_RemoveLabel
        run_catch_RemoveLabel)

lemma run_loop_added:
  "label \<in> set (fst (run_loop M files prl lg [] [])) \<longleftrightarrow>
     (\<exists>globs. (label, globs) \<in> set lg \<and> checkGlobs M files globs)"
  by (force simp: run_loop_eq)

lemma loop_distinct:
  "\<lbrakk>getLabelGlobMapFromObject_loop cfg acc = Inr m; distinct (map fst acc)\<rbrakk>
   \<Longrightarrow> distinct (map fst m)"
proof (induction cfg arbitrary: acc)
  case Nil
  then show ?case by simp
next
  case (Cons p cfg)
  obtain label v where p: "p = (label, v)" by (cases p)
  show ?case
  proof (cases v)
    case (VString s)
    with Cons.prems p show ?thesis
      by (auto intro: Cons.IH [of "AList.update label [Str s] acc"] simp: distinct_update)
  next
    case (VArray a)
    with Cons.prems p show ?thesis
      by (auto intro: Cons.IH [of "AList.update label a acc"] simp: distinct_update)
  qed (use Cons.prems p in simp_all)
qed

lemma getLabelGlobs_distinct: "getLabelGlobs env = Inr lg \<Longrightarrow> distinct (map fst lg)"
  by (auto simp: getLabelGlobs_def getLabelGlobMapFromObject_def split: sum.splits
        dest: loop_distinct)

lemma run_remove_AddLabels: "AddLabels k ls \<notin> set (run_remove env sync n ltr)"
  by (auto simp: run_remove_def run_catch_def split: option.splits)

lemma run_catch_AddLabels: "AddLabels k ls \<notin> set (run_catch e)"
  by (simp add: run_catch_def)

lemma run_AddLabels:
  "AddLabels k ls \<in> set (run M env)
   \<Longrightarrow> \<exists>prl files lg. pulls_get env = Inr prl \<and> getChangedFiles_outcome env = Inr files
         \<and> getLabelGlobs env = Inr lg \<and> ls = fst (run_loop M files prl lg [] [])"
  by (cases "getInput_repo_token env"; cases "getInput_configuration_path env";
      cases "payload_pull_request env"; cases "pulls_get env";
      cases "getChangedFiles_outcome env"; cases "getLabelGlobs env";
      cases "addLabels_outcome env")
     (auto simp: run_def getPrNumber_def Let_def case_prod_beta run_remove_AddLabels
        run_catch_AddLabels split: if_splits)

lemma unmatched_label_not_added:
  assumes lg: "getLabelGlobs env = Inr lg" and files: "getChangedFiles_outcome env = Inr files"
    and mem: "(label, globs) \<in> set lg" and no: "\<not> checkGlobs M files globs"
    and add: "AddLabels k ls \<in> set (run M env)"
  shows "label \<notin> set ls"
proof
  assume "label \<in> set ls"
  with run_AddLabels [OF add] lg files obtain prl
    where "label \<in> set (fst (run_loop M files prl lg [] []))" by auto
  then obtain globs' where g': "(label, globs') \<in> set lg" "checkGlobs M files globs'"
    by (auto simp: run_loop_added)
  from getLabelGlobs_distinct [OF lg] mem g'(1) have "globs' = globs"
    by (meson eq_key_imp_eq_value)
  with g'(2) no show False by simp
qed

text \<open>
  What the run does about removal. A \<open>removeLabel\<close> call for a label is issued exactly
  when the flag \<open>syncLabels\<close> is set (the \<open>sync-labels\<close> input is a non-empty text), the
  pull request carries the label, the label's rule set in the loaded label map does not
  match the changed files, and the run has not failed before. Without the input no
  removal is issued, a label that the pull request does not carry is never removed, and
  a label whose rule set does not match is not added.
\<close>

lemma run_removal_characterisation:
  "(RemoveLabel n label \<in> set (run Minimatch env) \<longleftrightarrow>
      getInput_sync_labels env \<noteq> [] \<and> payload_pull_request env = Some n \<and> n \<noteq> 0
      \<and> (\<exists>token configPath pullRequest_labels changedFiles labelGlobs globs.
            getInput_repo_token env = Inr token
            \<and> getInput_configuration_path env = Inr configPath
            \<and> pulls_get env = Inr pullRequest_labels
            \<and> getChangedFiles_outcome env = Inr changedFiles
            \<and> getLabelGlobs env = Inr labelGlobs
            \<and> ((\<forall>(l, g)\<in>set labelGlobs. \<not> checkGlobs Minimatch changedFiles g)
                \<or> addLabels_outcome env = None)
            \<and> label \<in> set pullRequest_labels
            \<and> (label, globs) \<in> set labelGlobs
            \<and> \<not> checkGlobs Minimatch changedFiles globs))
   \<and> (getInput_sync_labels env = [] \<longrightarrow> (\<forall>k l. RemoveLabel k l \<notin> set (run Minimatch env)))
   \<and> ((\<forall>pullRequest_labels. pulls_get env = Inr pullRequest_labels
                               \<longrightarrow> label \<notin> set pullRequest_labels)
       \<longrightarrow> (\<forall>k. RemoveLabel k label \<notin> set (run Minimatch env)))
   \<and> (\<forall>labelGlobs changedFiles globs.
         getLabelGlobs env = Inr labelGlobs \<and> getChangedFiles_outcome env = Inr changedFiles
         \<and> (label, globs) \<in> set labelGlobs \<and> \<not> checkGlobs Minimatch changedFiles globs
         \<longrightarrow> (\<forall>k ls. AddLabels k ls \<in> set (run Minimatch env) \<longrightarrow> label \<notin> set ls))"
proof (intro conjI)
  show "\<forall>labelGlobs changedFiles globs.
         getLabelGlobs env = Inr labelGlobs \<and> getChangedFiles_outcome env = Inr changedFiles
         \<and> (label, globs) \<in> set labelGlobs \<and> \<not> checkGlobs Minimatch changedFiles globs
         \<longrightarrow> (\<forall>k ls. AddLabels k ls \<in> set (run Minimatch env) \<longrightarrow> label \<notin> set ls)"
    using unmatched_label_not_added by blast
qed (unfold run_RemoveLabel run_loop_removals run_loop_additions, blast+)

text \<open>
  Claim C10. A label that the pull request carries and whose rule set no longer matches
  is to be removed only when the caller has enabled synchronization through the
  \<open>sync-labels\<close> input, and is to be left untouched otherwise. The run does gate the
  removal on its flag \<open>syncLabels\<close>, but it computes the flag as
  \<^verbatim>\<open>!!core.getInput("sync-labels", { required: false })\<close>, the truthiness of the input's
  text, and every non-empty text is truthy. With the input set to the text \<open>false\<close>,
  by which a caller switches synchronization off, the carried label \<open>src\<close>, whose rule
  set does not match, is removed all the same; only with the input left out is it left
  untouched.
\<close>

theorem sync_labels_false_still_removes:
  "run (=) \<lparr>getInput_repo_token = Inr ''t'', getInput_configuration_path = Inr ''p'',
             getInput_sync_labels = ''false'', payload_pull_request = Some 7,
             pulls_get = Inr [''src'', ''old''], getChangedFiles_outcome = Inr [''a.md''],
             yaml_load = Inr [(''docs'', VString ''a.md''), (''src'', VArray [Str ''b''])],
             addLabels_outcome = None, removeLabels_outcome = None\<rparr>
     = [AddLabels 7 [''docs''], RemoveLabel 7 ''src'']
   \<and> run (=) \<lparr>getInput_repo_token = Inr ''t'', getInput_configuration_path = Inr ''p'',
             getInput_sync_labels = [], payload_pull_request = Some 7,
             pulls_get = Inr [''src'', ''old''], getChangedFiles_outcome = Inr [''a.md''],
             yaml_load = Inr [(''docs'', VString ''a.md''), (''src'', VArray [Str ''b''])],
             addLabels_outcome = None, removeLabels_outcome = None\<rparr>
     = [AddLabels 7 [''docs'']]"
  by (simp add: run_def run_remove_def getPrNumber_def getLabelGlobs_def
        getLabelGlobMapFromObject_def toMatchConfig_def checkMatch_def toMatchers_def
        isMatchAny_def)

end
